theory Spec2Isabelle
  imports Complex_Main "HOL-Library.Sublist" "HOL-Library.AList"
begin

section \<open>Python values\<close>

text \<open>
  A Python \<open>str\<close> is a sequence of Unicode code points. Lone surrogates (U+D800 to U+DFFF)
  can occur in a \<open>str\<close> (JSON escapes produce them) and are exactly the code points that
  \<open>str.encode()\<close> (UTF-8, strict) rejects with \<open>UnicodeEncodeError\<close>.
\<close>

type_synonym pystr = "nat list"

definition str :: "string \<Rightarrow> pystr" where
  "str s = map of_char s"

definition is_surrogate :: "nat \<Rightarrow> bool" where
  "is_surrogate c = (55296 \<le> c \<and> c \<le> 57343)"

definition utf8 :: "nat \<Rightarrow> nat list" where
  "utf8 c =
     (if c < 128 then [c]
      else if c < 2048 then [192 + c div 64, 128 + c mod 64]
      else if c < 65536 then [224 + c div 4096, 128 + (c div 64) mod 64, 128 + c mod 64]
      else [240 + c div 262144, 128 + (c div 4096) mod 64, 128 + (c div 64) mod 64,
            128 + c mod 64])"

text \<open>\<open>s.encode()\<close>: \<open>None\<close> stands for the \<open>UnicodeEncodeError\<close>.\<close>

definition encode :: "pystr \<Rightarrow> nat list option" where
  "encode s = (if list_ex is_surrogate s then None else Some (concat (map utf8 s)))"

text \<open>
  The values that \<open>Response.json()\<close> produces, which are the values the program passes
  around: \<open>None\<close>, \<open>bool\<close>, \<open>int\<close>, \<open>float\<close> (the finite ones, by the real they denote),
  \<open>str\<close>, \<open>list\<close> and \<open>dict\<close>. A \<open>dict\<close> is the list of its items in insertion order;
  the keys of a parsed dict are distinct.
\<close>

datatype json =
    JNull
  | JBool bool
  | JInt int
  | JFloat real
  | JStr pystr
  | JList "json list"
  | JDict "(pystr \<times> json) list"

text \<open>Truth value testing (\<open>if x:\<close>, \<open>not x\<close>).\<close>

fun truthy :: "json \<Rightarrow> bool" where
  "truthy JNull = False"
| "truthy (JBool b) = b"
| "truthy (JInt i) = (i \<noteq> 0)"
| "truthy (JFloat r) = (r \<noteq> 0)"
| "truthy (JStr s) = (s \<noteq> [])"
| "truthy (JList xs) = (xs \<noteq> [])"
| "truthy (JDict kvs) = (kvs \<noteq> [])"

text \<open>
  \<open>a == b\<close>: numbers (with \<open>bool\<close> among them) compare by value, strings and lists
  elementwise, dicts as mappings, whatever the order of their items.
\<close>

fun num_of :: "json \<Rightarrow> real option" where
  "num_of (JBool b) = Some (if b then 1 else 0)"
| "num_of (JInt i) = Some (of_int i)"
| "num_of (JFloat r) = Some r"
| "num_of _ = None"

fun py_eq :: "json \<Rightarrow> json \<Rightarrow> bool" where
  "py_eq JNull JNull = True"
| "py_eq (JStr s) (JStr t) = (s = t)"
| "py_eq (JList xs) (JList ys) = list_all2 py_eq xs ys"
| "py_eq (JDict a) (JDict b) =
     (list_all (\<lambda>(k, v). case map_of b k of None \<Rightarrow> False | Some w \<Rightarrow> py_eq v w) a
      \<and> list_all (\<lambda>(k, w). map_of a k \<noteq> None) b)"
| "py_eq a b = (case (num_of a, num_of b) of (Some x, Some y) \<Rightarrow> x = y | _ \<Rightarrow> False)"

text \<open>
  The exceptions the program can meet: its own class \<open>RemotePlayerError\<close> (the only
  exception class this repository defines) with the argument it was raised with,
  the builtins that dynamic typing and \<open>next\<close> raise, the errors of \<open>requests\<close>
  (\<open>JSONDecodeError\<close> from \<open>Response.json()\<close>, \<open>ConnectionError\<close> for the transport) and
  those of \<open>pylast\<close>.
\<close>

datatype py_error =
    RemotePlayerError json
  | StopIteration
  | KeyError pystr
  | TypeError
  | AttributeError
  | UnicodeEncodeError
  | JSONDecodeError
  | ConnectionError
  | WSError
  | NetworkError
  | MalformedResponseError

text \<open>\<open>isinstance(e, RemotePlayerError)\<close>\<close>

fun is_RemotePlayerError :: "py_error \<Rightarrow> bool" where
  "is_RemotePlayerError (RemotePlayerError m) = True"
| "is_RemotePlayerError _ = False"

text \<open>\<open>v[k]\<close> for a string key \<open>k\<close>.\<close>

fun subscript :: "json \<Rightarrow> pystr \<Rightarrow> py_error + json" where
  "subscript (JDict kvs) k = (case map_of kvs k of None \<Rightarrow> Inl (KeyError k) | Some v \<Rightarrow> Inr v)"
| "subscript _ k = Inl TypeError"

text \<open>\<open>v.get(k, default)\<close>; \<open>v.get(k)\<close> is \<open>v.get(k, None)\<close>.\<close>

fun py_get :: "json \<Rightarrow> pystr \<Rightarrow> json \<Rightarrow> py_error + json" where
  "py_get (JDict kvs) k d = (case map_of kvs k of None \<Rightarrow> Inr d | Some v \<Rightarrow> Inr v)"
| "py_get _ k d = Inl AttributeError"

text \<open>\<open>for x in v\<close>: a list gives its elements, a dict its keys, a string its characters.\<close>

fun py_iter :: "json \<Rightarrow> py_error + json list" where
  "py_iter (JList xs) = Inr xs"
| "py_iter (JDict kvs) = Inr (map (\<lambda>(k, v). JStr k) kvs)"
| "py_iter (JStr s) = Inr (map (\<lambda>c. JStr [c]) s)"
| "py_iter _ = Inl TypeError"

text \<open>\<open>sub in s\<close> for two strings.\<close>

fun contains :: "pystr \<Rightarrow> pystr \<Rightarrow> bool" where
  "contains sub [] = (sub = [])"
| "contains sub (c # cs) = (prefix sub (c # cs) \<or> contains sub cs)"

section \<open>The world outside the program\<close>

text \<open>
  Every exchange with the device or with Last.fm is an event of the trace. What the
  outside answers may depend on everything that happened before (the session cookie
  that \<open>login\<close> obtains lives there), so each collaborator is a function of the trace so
  far and of the call's arguments. \<open>py_repr\<close> is the text an f-string gives a value that
  is not a string.
\<close>

datatype verb = GET | POST

record response =
  status_code :: nat
  json_body :: "json option"

datatype event =
    Request verb pystr "nat list option" bool
  | Connect
  | GetSimilar json int
  | UpdateNowPlaying json json json json json
  | Scrobble json real json json json json
  | Sleep nat

datatype LastFMNetwork = LastFMNetwork

record env =
  session_request :: "event list \<Rightarrow> verb \<Rightarrow> pystr \<Rightarrow> nat list option \<Rightarrow> bool
                      \<Rightarrow> py_error + response"
  lastfm_connect :: "event list \<Rightarrow> py_error + LastFMNetwork"
  artist_get_similar :: "event list \<Rightarrow> json \<Rightarrow> int \<Rightarrow> py_error + pystr list"
  network_update_now_playing :: "event list \<Rightarrow> json \<Rightarrow> json \<Rightarrow> json \<Rightarrow> json \<Rightarrow> json
                                 \<Rightarrow> py_error + unit"
  network_scrobble :: "event list \<Rightarrow> json \<Rightarrow> real \<Rightarrow> json \<Rightarrow> json \<Rightarrow> json \<Rightarrow> json
                       \<Rightarrow> py_error + unit"
  time_time :: "event list \<Rightarrow> real"
  py_repr :: "json \<Rightarrow> pystr"

text \<open>
  The mutable state: the trace and the module-level cache \<open>SIMILAR_ARTISTS\<close>. A raised
  exception keeps the state reached so far.
\<close>

record world =
  trace :: "event list"
  SIMILAR_ARTISTS :: "json \<rightharpoonup> pystr set"

type_synonym 'a io = "world \<Rightarrow> (py_error + 'a) \<times> world"

definition ret :: "'a \<Rightarrow> 'a io" where
  "ret x w = (Inr x, w)"

definition raise :: "py_error \<Rightarrow> 'a io" where
  "raise e w = (Inl e, w)"

definition lift :: "py_error + 'a \<Rightarrow> 'a io" where
  "lift r w = (r, w)"

definition io_bind :: "'a io \<Rightarrow> ('a \<Rightarrow> 'b io) \<Rightarrow> 'b io" where
  "io_bind m f w = (case m w of (Inl e, w') \<Rightarrow> (Inl e, w') | (Inr x, w') \<Rightarrow> f x w')"

definition record_event :: "event \<Rightarrow> world \<Rightarrow> world" where
  "record_event ev w = w\<lparr>trace := trace w @ [ev]\<rparr>"

section \<open>The protocol client\<close>

definition REMOTE_PLAYER_NAME :: pystr where
  "REMOTE_PLAYER_NAME = str ''Salon (DLNA)''"

text \<open>
  The dataclass \<open>AudioStationRemote\<close>. \<open>player_id\<close> has no default: the attribute
  does not exist before \<open>get_remote_player_id\<close> assigns it. The \<open>requests\<close> session and
  its cookies are on the side of the world.
\<close>

record AudioStationRemote =
  hostname :: pystr
  port :: pystr
  account :: pystr
  password :: pystr
  remote_player :: pystr
  verify :: bool
  last_fm_network :: "LastFMNetwork option"
  version :: int
  endpoint :: pystr
  player_id :: "json option"
  versions :: "(pystr \<times> json) list"

definition encode_data :: "pystr option \<Rightarrow> py_error + nat list option" where
  "encode_data data =
     (case data of
        None \<Rightarrow> Inr None
      | Some d \<Rightarrow> (case encode d of None \<Rightarrow> Inl UnicodeEncodeError | Some b \<Rightarrow> Inr (Some b)))"

definition send :: "env \<Rightarrow> verb \<Rightarrow> pystr \<Rightarrow> nat list option \<Rightarrow> bool \<Rightarrow> response io" where
  "send E v url body vfy w =
     (session_request E (trace w) v url body vfy, record_event (Request v url body vfy) w)"

definition response_json :: "response \<Rightarrow> py_error + json" where
  "response_json r = (case json_body r of None \<Rightarrow> Inl JSONDecodeError | Some j \<Rightarrow> Inr j)"

definition full_path :: "AudioStationRemote \<Rightarrow> pystr \<Rightarrow> pystr" where
  "full_path self path = str ''https://'' @ endpoint self @ str ''/'' @ path"

definition request :: "env \<Rightarrow> AudioStationRemote \<Rightarrow> verb \<Rightarrow> pystr \<Rightarrow> pystr option \<Rightarrow> response io" where
  "request E self v path data =
     io_bind (lift (encode_data data)) (\<lambda>body.
     io_bind (send E v (full_path self path) body (verify self)) (\<lambda>r.
     io_bind (lift (response_json r)) (\<lambda>envelope.
     io_bind (lift (py_get envelope (str ''error'') JNull)) (\<lambda>error_message.
       if truthy error_message then raise (RemotePlayerError error_message) else ret r))))"

definition query_syno_api_info :: "env \<Rightarrow> AudioStationRemote \<Rightarrow> json io" where
  "query_syno_api_info E self =
     io_bind (request E self GET
                (str ''webapi/entry.cgi?api=SYNO.API.Info&version=1&method=query'') None)
       (\<lambda>r. lift (response_json r))"

definition login_path :: "AudioStationRemote \<Rightarrow> pystr" where
  "login_path self =
     str ''webapi/entry.cgi?api=SYNO.API.Auth&version=6&method=login&account=''
     @ account self @ str ''&passwd='' @ password self
     @ str ''&session=AudioStation&format=cookie''"

definition login :: "env \<Rightarrow> AudioStationRemote \<Rightarrow> json io" where
  "login E self =
     io_bind (request E self GET (login_path self) None) (\<lambda>r. lift (response_json r))"

definition list_remote_players :: "env \<Rightarrow> AudioStationRemote \<Rightarrow> json io" where
  "list_remote_players E self =
     io_bind (request E self POST (str ''webapi/AudioStation/remote_player.cgi'')
                (Some (str ''api=SYNO.AudioStation.RemotePlayer&version=3&method=list'')))
       (\<lambda>r. lift (response_json r))"

text \<open>
  \<open>next(x["id"] for x in players if x["name"] == REMOTE_PLAYER_NAME)\<close>: the generator
  is consumed up to its first match; exhausted, \<open>next\<close> raises \<open>StopIteration\<close>.
\<close>

fun next_player_id :: "json list \<Rightarrow> py_error + json" where
  "next_player_id [] = Inl StopIteration"
| "next_player_id (x # xs) =
     (case subscript x (str ''name'') of
        Inl e \<Rightarrow> Inl e
      | Inr n \<Rightarrow>
          if py_eq n (JStr REMOTE_PLAYER_NAME) then subscript x (str ''id'')
          else next_player_id xs)"

text \<open>An entry of the player list that has the two fields the generator reads.\<close>

definition is_player :: "json \<Rightarrow> bool" where
  "is_player x =
     (case (subscript x (str ''name''), subscript x (str ''id'')) of
        (Inr n, Inr i) \<Rightarrow> True
      | _ \<Rightarrow> False)"

text \<open>The method assigns \<open>self.player_id\<close>: the client comes back with the id.\<close>

definition get_remote_player_id :: "env \<Rightarrow> AudioStationRemote \<Rightarrow> (json \<times> AudioStationRemote) io" where
  "get_remote_player_id E self =
     io_bind (list_remote_players E self) (\<lambda>listing.
     io_bind (lift (subscript listing (str ''data''))) (\<lambda>data.
     io_bind (lift (subscript data (str ''players''))) (\<lambda>players.
     io_bind (lift (py_iter players)) (\<lambda>xs.
     io_bind (lift (next_player_id xs)) (\<lambda>pid.
       ret (pid, self\<lparr>player_id := Some pid\<rparr>))))))"

text \<open>A value inside an f-string.\<close>

definition fstr :: "env \<Rightarrow> json \<Rightarrow> pystr" where
  "fstr E v = (case v of JStr s \<Rightarrow> s | _ \<Rightarrow> py_repr E v)"

definition get_remote_player_status :: "env \<Rightarrow> AudioStationRemote \<Rightarrow> json io" where
  "get_remote_player_status E self =
     (case player_id self of
        None \<Rightarrow> raise AttributeError
      | Some pid \<Rightarrow>
          io_bind (request E self POST (str ''webapi/AudioStation/remote_player.cgi'')
                     (Some (str ''api=SYNO.AudioStation.RemotePlayerStatus&version=1&method=getstatus&id=''
                            @ fstr E pid @ str ''&additional=song_tag''))) (\<lambda>r.
          io_bind (lift (response_json r)) (\<lambda>envelope.
            lift (py_get envelope (str ''data'') (JDict [])))))"

text \<open>
  The TypedDict \<open>SongTag\<close> (total): a dict is a \<open>SongTag\<close> when its keys are the nine
  declared ones.
\<close>

definition SongTag_keys :: "pystr list" where
  "SongTag_keys = [str ''album'', str ''album_artist'', str ''artist'', str ''comment'',
                   str ''composer'', str ''disc'', str ''genre'', str ''track'', str ''year'']"

definition is_SongTag :: "(pystr \<times> json) list \<Rightarrow> bool" where
  "is_SongTag kvs = (distinct (map fst kvs) \<and> set (map fst kvs) = set SongTag_keys)"

text \<open>
  The dict display \<open>{"title": t, **song}\<close>: the key \<open>title\<close> first, then every item
  of \<open>song\<close> stored in turn, a later store replacing the value of a key already there.
\<close>

definition dict_display :: "json \<Rightarrow> json \<Rightarrow> py_error + json" where
  "dict_display t song =
     (case song of
        JDict kvs \<Rightarrow> Inr (JDict (fold (\<lambda>(k, v). AList.update k v) kvs [(str ''title'', t)]))
      | _ \<Rightarrow> Inl TypeError)"

definition get_now_playing :: "env \<Rightarrow> AudioStationRemote \<Rightarrow> json io" where
  "get_now_playing E self =
     io_bind (get_remote_player_status E self) (\<lambda>info.
     io_bind (lift (subscript info (str ''state''))) (\<lambda>state.
       if \<not> py_eq state (JStr (str ''playing'')) then ret JNull
       else
         io_bind (lift (subscript info (str ''song''))) (\<lambda>s.
         io_bind (lift (subscript s (str ''additional''))) (\<lambda>additional.
         io_bind (lift (py_get additional (str ''song_tag'') JNull)) (\<lambda>song.
           if \<not> truthy song then raise (RemotePlayerError (JStr (str ''No info found'')))
           else
             io_bind (lift (subscript info (str ''song''))) (\<lambda>s'.
             io_bind (lift (subscript s' (str ''title''))) (\<lambda>t.
               lift (dict_display t song))))))))"

definition search_data :: "pystr \<Rightarrow> pystr" where
  "search_data artist =
     str ''api=SYNO.AudioStation.Artist&version=4&method=list&filter='' @ artist
     @ str ''&library=all&limit=10&offset=0&additional=avg_rating''"

definition search_for_artist :: "env \<Rightarrow> AudioStationRemote \<Rightarrow> pystr \<Rightarrow> json io" where
  "search_for_artist E self artist w =
     (case io_bind (request E self POST (str ''webapi/AudioStation/artist.cgi'')
                      (Some (search_data artist))) (\<lambda>r.
           io_bind (lift (response_json r)) (\<lambda>envelope.
             lift (py_get envelope (str ''data'') (JDict [])))) w of
        (Inl e, w') \<Rightarrow> if e = UnicodeEncodeError then (Inr (JDict []), w') else (Inl e, w')
      | (Inr found, w') \<Rightarrow> (Inr found, w'))"

section \<open>Similar artists\<close>

definition get_similar :: "env \<Rightarrow> LastFMNetwork \<Rightarrow> json \<Rightarrow> int \<Rightarrow> pystr list io" where
  "get_similar E network artist limit w =
     (case artist_get_similar E (trace w) artist limit of
        Inl e \<Rightarrow> (if e = WSError then Inr [] else Inl e, record_event (GetSimilar artist limit) w)
      | Inr names \<Rightarrow> (Inr names, record_event (GetSimilar artist limit) w))"

text \<open>\<open>s.replace(",", " ")\<close> and \<open>s.split(" ")\<close>, which keeps the empty pieces.\<close>

definition replace_comma :: "pystr \<Rightarrow> pystr" where
  "replace_comma s = map (\<lambda>c. if c = 44 then 32 else c) s"

fun split_space :: "pystr \<Rightarrow> pystr list" where
  "split_space [] = [[]]"
| "split_space (c # cs) =
     (if c = 32 then [] # split_space cs
      else (case split_space cs of [] \<Rightarrow> [[c]] | p # ps \<Rightarrow> (c # p) # ps))"

definition name_words :: "pystr \<Rightarrow> pystr set" where
  "name_words s = set (split_space (replace_comma s))"

text \<open>
  Keys of a dict: \<open>list\<close> and \<open>dict\<close> are unhashable, and numbers that are equal are the
  same key.
\<close>

fun hashable :: "json \<Rightarrow> bool" where
  "hashable (JList xs) = False"
| "hashable (JDict kvs) = False"
| "hashable _ = True"

fun dict_key :: "json \<Rightarrow> json" where
  "dict_key (JBool b) = JInt (if b then 1 else 0)"
| "dict_key (JFloat r) = (if r = of_int \<lfloor>r\<rfloor> then JInt \<lfloor>r\<rfloor> else JFloat r)"
| "dict_key v = v"

text \<open>
  The two nested \<open>for\<close> loops of \<open>get_similar_artists\<close>. Each returns the exception that
  stopped it, if any, with the set as far as it was filled.
\<close>

fun add_matching :: "pystr \<Rightarrow> json list \<Rightarrow> pystr set \<Rightarrow> py_error option \<times> pystr set" where
  "add_matching artist' [] acc = (None, acc)"
| "add_matching artist' (similar_artist # rest) acc =
     (case subscript similar_artist (str ''name'') of
        Inl e \<Rightarrow> (Some e, acc)
      | Inr (JStr n) \<Rightarrow>
          if name_words artist' \<inter> name_words n \<noteq> {} then add_matching artist' rest (insert n acc)
          else add_matching artist' rest acc
      | Inr _ \<Rightarrow> (Some AttributeError, acc))"

fun search_all :: "env \<Rightarrow> AudioStationRemote \<Rightarrow> pystr list \<Rightarrow> pystr set \<Rightarrow> world
                   \<Rightarrow> (py_error option \<times> pystr set) \<times> world" where
  "search_all E self [] acc w = ((None, acc), w)"
| "search_all E self (artist' # rest) acc w =
     (case search_for_artist E self artist' w of
        (Inl e, w') \<Rightarrow> ((Some e, acc), w')
      | (Inr found, w') \<Rightarrow>
          (case py_get found (str ''artists'') (JList []) of
             Inl e \<Rightarrow> ((Some e, acc), w')
           | Inr artists \<Rightarrow>
               (case py_iter artists of
                  Inl e \<Rightarrow> ((Some e, acc), w')
                | Inr xs \<Rightarrow>
                    (case add_matching artist' xs acc of
                       (Some e, acc') \<Rightarrow> ((Some e, acc'), w')
                     | (None, acc') \<Rightarrow> search_all E self rest acc' w'))))"

definition store :: "json \<Rightarrow> pystr set \<Rightarrow> world \<Rightarrow> world" where
  "store artist s w = w\<lparr>SIMILAR_ARTISTS := (SIMILAR_ARTISTS w)(dict_key artist \<mapsto> s)\<rparr>"

text \<open>
  \<open>SIMILAR_ARTISTS.get(artist, set())\<close> gives the cached set object itself when the key
  is there: the loops then fill that very object, so what they added before an
  exception stays in the cache.
\<close>

definition get_similar_artists :: "env \<Rightarrow> AudioStationRemote \<Rightarrow> json \<Rightarrow> int \<Rightarrow> pystr set io" where
  "get_similar_artists E self artist limit w =
     (case last_fm_network self of
        None \<Rightarrow> (Inr {}, w)
      | Some network \<Rightarrow>
          if \<not> hashable artist then (Inl TypeError, w)
          else
            let similar_artists_set =
                  (case SIMILAR_ARTISTS w (dict_key artist) of None \<Rightarrow> {} | Some s \<Rightarrow> s)
            in if similar_artists_set \<noteq> {} then (Inr similar_artists_set, w)
               else
                 (case get_similar E network artist limit w of
                    (Inl e, w1) \<Rightarrow> (Inl e, w1)
                  | (Inr similar_artists, w1) \<Rightarrow>
                      (case search_all E self similar_artists similar_artists_set w1 of
                         ((Some e, acc), w2) \<Rightarrow>
                           (Inl e, if SIMILAR_ARTISTS w (dict_key artist) = None then w2
                                   else store artist acc w2)
                       | ((None, acc), w2) \<Rightarrow> (Inr acc, store artist acc w2))))"

section \<open>Construction\<close>

text \<open>\<open>v.items()\<close>\<close>

fun py_items :: "json \<Rightarrow> py_error + (pystr \<times> json) list" where
  "py_items (JDict kvs) = Inr kvs"
| "py_items _ = Inl AttributeError"

definition post_init :: "env \<Rightarrow> AudioStationRemote \<Rightarrow> AudioStationRemote io" where
  "post_init E self0 =
     (let self1 = self0\<lparr>endpoint := hostname self0 @ str '':'' @ port self0\<rparr> in
      io_bind (query_syno_api_info E self1) (\<lambda>response.
      io_bind (lift (subscript response (str ''data''))) (\<lambda>data.
      io_bind (lift (py_items data)) (\<lambda>items.
        let self2 = self1\<lparr>versions := filter (\<lambda>(k, v). contains (str ''Audio'') k) items\<rparr> in
        io_bind (login E self2) (\<lambda>cookies.
        io_bind (get_remote_player_id E self2) (\<lambda>(pid, self3). ret self3))))))"

text \<open>
  The generated \<open>__init__\<close> stores the arguments and the defaults and calls
  \<open>__post_init__\<close>; \<open>endpoint\<close> and \<open>player_id\<close> do not exist before their assignment.
\<close>

definition new_AudioStationRemote ::
  "env \<Rightarrow> pystr \<Rightarrow> pystr \<Rightarrow> pystr \<Rightarrow> pystr \<Rightarrow> pystr \<Rightarrow> LastFMNetwork option
   \<Rightarrow> AudioStationRemote io" where
  "new_AudioStationRemote E h p a pw rp net =
     post_init E \<lparr>hostname = h, port = p, account = a, password = pw, remote_player = rp,
                  verify = False, last_fm_network = net, version = 1, endpoint = [],
                  player_id = None, versions = []\<rparr>"

section \<open>The polling loop\<close>

text \<open>
  The environment variables, as the f-strings render them (the port \<open>5001\<close> is passed
  as a number and rendered the same way).
\<close>

record config =
  DSM_HOSTNAME :: pystr
  USERNAME :: pystr
  PASSWORD :: pystr

definition connect :: "env \<Rightarrow> LastFMNetwork io" where
  "connect E w = (lastfm_connect E (trace w), record_event Connect w)"

definition setup_main :: "env \<Rightarrow> config \<Rightarrow> (LastFMNetwork \<times> AudioStationRemote) io" where
  "setup_main E cfg =
     io_bind (connect E) (\<lambda>network.
     io_bind (new_AudioStationRemote E (DSM_HOSTNAME cfg) (str ''5001'') (USERNAME cfg)
                (PASSWORD cfg) REMOTE_PLAYER_NAME (Some network)) (\<lambda>remote.
       ret (network, remote)))"

definition update_now_playing :: "env \<Rightarrow> json \<Rightarrow> json \<Rightarrow> json \<Rightarrow> json \<Rightarrow> json \<Rightarrow> unit io" where
  "update_now_playing E artist title album album_artist track w =
     (network_update_now_playing E (trace w) artist title album album_artist track,
      record_event (UpdateNowPlaying artist title album album_artist track) w)"

definition scrobble :: "env \<Rightarrow> json \<Rightarrow> json \<Rightarrow> json \<Rightarrow> json \<Rightarrow> json \<Rightarrow> unit io" where
  "scrobble E artist title album album_artist track w =
     (let timestamp = time_time E (trace w) in
      (network_scrobble E (trace w) artist timestamp title album album_artist track,
       record_event (Scrobble artist timestamp title album album_artist track) w))"

text \<open>
  Lines 260 to 278 of \<open>main\<close>: the log line reads \<open>title\<close>, \<open>artist\<close> and \<open>album\<close>, then
  the two calls on \<open>network\<close> read \<open>album_artist\<close> and \<open>track\<close> as well. The result is
  \<open>info["artist"]\<close>.
\<close>

definition announce :: "env \<Rightarrow> LastFMNetwork option \<Rightarrow> json \<Rightarrow> json io" where
  "announce E network info =
     io_bind (lift (subscript info (str ''title''))) (\<lambda>title.
     io_bind (lift (subscript info (str ''artist''))) (\<lambda>artist.
     io_bind (lift (subscript info (str ''album''))) (\<lambda>album.
       case network of
         None \<Rightarrow> raise AttributeError
       | Some n \<Rightarrow>
           io_bind (lift (subscript info (str ''album_artist''))) (\<lambda>album_artist.
           io_bind (lift (subscript info (str ''track''))) (\<lambda>track.
           io_bind (update_now_playing E artist title album album_artist track) (\<lambda>u.
           io_bind (scrobble E artist title album album_artist track) (\<lambda>u'.
             ret artist)))))))"

text \<open>
  The body of the \<open>try\<close> statement. It gives the exception that left it, if any, the value
  of \<open>current_track\<close> at that point, and the world.
\<close>

definition try_body :: "env \<Rightarrow> LastFMNetwork option \<Rightarrow> AudioStationRemote \<Rightarrow> json \<Rightarrow> world
                        \<Rightarrow> py_error option \<times> json \<times> world" where
  "try_body E network remote current_track w =
     (case get_now_playing E remote w of
        (Inl e, w1) \<Rightarrow> (Some e, current_track, w1)
      | (Inr info, w1) \<Rightarrow>
          if truthy info \<and> \<not> py_eq current_track info then
            (case announce E network info w1 of
               (Inl e, w2) \<Rightarrow> (Some e, current_track, w2)
             | (Inr artist, w2) \<Rightarrow>
                 (case get_similar_artists E remote artist 30 w2 of
                    (Inl e, w3) \<Rightarrow> (Some e, info, w3)
                  | (Inr similar_artists, w3) \<Rightarrow> (None, info, w3)))
          else (None, current_track, w1))"

record main_state =
  network :: "LastFMNetwork option"
  remote :: "AudioStationRemote option"
  current_track :: json

definition initial_state :: main_state where
  "initial_state = \<lparr>network = None, remote = None, current_track = JDict []\<rparr>"

definition sleep :: "nat \<Rightarrow> world \<Rightarrow> world" where
  "sleep n w = record_event (Sleep n) w"

text \<open>
  One turn of \<open>while True\<close>. \<open>Inl e\<close>: the exception \<open>e\<close> leaves \<open>main\<close>; \<open>Inr ()\<close>: the
  loop goes on.
\<close>

definition main_iteration :: "env \<Rightarrow> config \<Rightarrow> main_state \<Rightarrow> world
                              \<Rightarrow> (py_error + unit) \<times> main_state \<times> world" where
  "main_iteration E cfg st w =
     (case (if network st = None \<and> remote st = None
            then io_bind (setup_main E cfg) (\<lambda>(n, r). ret (st\<lparr>network := Some n, remote := Some r\<rparr>))
            else ret st) w of
        (Inl e, w0) \<Rightarrow> (Inl e, st, w0)
      | (Inr st1, w0) \<Rightarrow>
          (case remote st1 of
             None \<Rightarrow> (Inl AttributeError, st1, w0)
           | Some r \<Rightarrow>
               (case try_body E (network st1) r (current_track st1) w0 of
                  (Some e, ct, w1) \<Rightarrow>
                    if e = NetworkError
                    then (Inr (), st1\<lparr>current_track := ct\<rparr>, sleep 5 (sleep 10 w1))
                    else (Inl e, st1\<lparr>current_track := ct\<rparr>, w1)
                | (None, ct, w1) \<Rightarrow> (Inr (), st1\<lparr>current_track := ct\<rparr>, sleep 5 w1))))"

text \<open>
  \<open>main\<close> never returns by itself: the first argument bounds the number of turns
  observed, and \<open>Inr ()\<close> says that the loop is still running after them.
\<close>

fun main :: "nat \<Rightarrow> env \<Rightarrow> config \<Rightarrow> main_state \<Rightarrow> world
             \<Rightarrow> (py_error + unit) \<times> main_state \<times> world" where
  "main 0 E cfg st w = (Inr (), st, w)"
| "main (Suc n) E cfg st w =
     (case main_iteration E cfg st w of
        (Inl e, st', w') \<Rightarrow> (Inl e, st', w')
      | (Inr u, st', w') \<Rightarrow> main n E cfg st' w')"

section \<open>A scripted device and tracking service\<close>

text \<open>
  A collaborator for concrete runs: the device answers the requests in turn with status
  \<open>code\<close> and the bodies \<open>replies\<close> and is unreachable after them, Last.fm answers the
  lookups of similar artists with \<open>similar\<close> and the calls of the tracking service
  with \<open>tracking\<close>, in turn.
\<close>

fun is_request :: "event \<Rightarrow> bool" where
  "is_request (Request v url body vfy) = True"
| "is_request _ = False"

fun is_get_similar :: "event \<Rightarrow> bool" where
  "is_get_similar (GetSimilar a l) = True"
| "is_get_similar _ = False"

fun is_tracking :: "event \<Rightarrow> bool" where
  "is_tracking (UpdateNowPlaying a t al aa tr) = True"
| "is_tracking (Scrobble a ts t al aa tr) = True"
| "is_tracking _ = False"

definition nth_or :: "'a list \<Rightarrow> nat \<Rightarrow> 'a \<Rightarrow> 'a" where
  "nth_or xs n d = (case drop n xs of [] \<Rightarrow> d | x # rest \<Rightarrow> x)"

definition scripted :: "nat \<Rightarrow> json list \<Rightarrow> (py_error + pystr list) list
                        \<Rightarrow> (py_error + unit) list \<Rightarrow> env" where
  "scripted code replies similar tracking =
     \<lparr>session_request = (\<lambda>tr v url body vfy.
          case drop (length (filter is_request tr)) replies of
            [] \<Rightarrow> Inl ConnectionError
          | j # rest \<Rightarrow> Inr \<lparr>status_code = code, json_body = Some j\<rparr>),
      lastfm_connect = (\<lambda>tr. Inr LastFMNetwork),
      artist_get_similar = (\<lambda>tr artist limit.
          nth_or similar (length (filter is_get_similar tr)) (Inl WSError)),
      network_update_now_playing = (\<lambda>tr artist title album album_artist track.
          nth_or tracking (length (filter is_tracking tr)) (Inr ())),
      network_scrobble = (\<lambda>tr artist timestamp title album album_artist track.
          nth_or tracking (length (filter is_tracking tr)) (Inr ())),
      time_time = (\<lambda>tr. of_nat (length tr)),
      py_repr = (\<lambda>v. str ''?'')\<rparr>"

text \<open>A client as \<open>setup\<close> leaves it, and the state of a fresh process.\<close>

definition salon :: AudioStationRemote where
  "salon = \<lparr>hostname = str ''nas.local'', port = str ''5001'', account = str ''me'',
            password = str ''secret'', remote_player = REMOTE_PLAYER_NAME, verify = False,
            last_fm_network = Some LastFMNetwork, version = 1,
            endpoint = str ''nas.local:5001'', player_id = Some (JStr (str ''uuid:42'')),
            versions = []\<rparr>"

definition world0 :: world where
  "world0 = \<lparr>trace = [], SIMILAR_ARTISTS = Map.empty\<rparr>"

text \<open>What the device sends: a list of players, a player status.\<close>

definition player :: "string \<Rightarrow> string \<Rightarrow> json" where
  "player i n = JDict [(str ''id'', JStr (str i)), (str ''name'', JStr (str n))]"

definition players_reply :: "json list \<Rightarrow> json" where
  "players_reply ps =
     JDict [(str ''data'', JDict [(str ''players'', JList ps)]), (str ''success'', JBool True)]"

definition song_of :: "string \<Rightarrow> (pystr \<times> json) list \<Rightarrow> json" where
  "song_of t additional =
     JDict [(str ''additional'', JDict additional), (str ''id'', JStr (str ''music_7'')),
            (str ''title'', JStr (str t)), (str ''type'', JStr (str ''file''))]"

definition status_of :: "string \<Rightarrow> string \<Rightarrow> (pystr \<times> json) list \<Rightarrow> json" where
  "status_of st t additional =
     JDict [(str ''state'', JStr (str st)), (str ''song'', song_of t additional),
            (str ''volume'', JInt 30)]"

definition status_reply :: "string \<Rightarrow> string \<Rightarrow> (pystr \<times> json) list \<Rightarrow> json" where
  "status_reply st t additional =
     JDict [(str ''data'', status_of st t additional), (str ''success'', JBool True)]"

definition blue_tags :: "(pystr \<times> json) list" where
  "blue_tags = [(str ''album'', JStr (str ''Kind of Blue'')),
                (str ''album_artist'', JStr (str ''Miles Davis'')),
                (str ''artist'', JStr (str ''Miles Davis'')),
                (str ''comment'', JStr []), (str ''composer'', JStr (str ''Miles Davis'')),
                (str ''disc'', JInt 1), (str ''genre'', JStr (str ''Jazz'')),
                (str ''track'', JInt 1), (str ''year'', JInt 1959)]"

definition status_request :: event where
  "status_request =
     Request POST (str ''https://nas.local:5001/webapi/AudioStation/remote_player.cgi'')
       (Some (str ''api=SYNO.AudioStation.RemotePlayerStatus&version=1&method=getstatus&id=uuid:42&additional=song_tag''))
       False"

text \<open>The answers to capability discovery, to a login and to an artist search.\<close>

definition api :: "string \<Rightarrow> json" where
  "api path = JDict [(str ''maxVersion'', JInt 3), (str ''minVersion'', JInt 1),
                     (str ''path'', JStr (str path))]"

definition discovery_reply :: json where
  "discovery_reply =
     JDict [(str ''data'',
             JDict [(str ''SYNO.API.Auth'', api ''entry.cgi''),
                    (str ''SYNO.AudioStation.Artist'', api ''AudioStation/artist.cgi''),
                    (str ''SYNO.AudioStation.RemotePlayer'', api ''AudioStation/remote_player.cgi''),
                    (str ''SYNO.FileStation.List'', api ''entry.cgi'')]),
            (str ''success'', JBool True)]"

definition login_reply :: json where
  "login_reply = JDict [(str ''data'', JDict [(str ''sid'', JStr (str ''s1''))]),
                        (str ''success'', JBool True)]"

definition error_reply :: "int \<Rightarrow> json" where
  "error_reply code = JDict [(str ''error'', JDict [(str ''code'', JInt code)]),
                             (str ''success'', JBool False)]"

definition search_reply :: "string list \<Rightarrow> json" where
  "search_reply names =
     JDict [(str ''data'',
             JDict [(str ''artists'', JList (map (\<lambda>n. JDict [(str ''name'', JStr (str n))]) names))]),
            (str ''success'', JBool True)]"

text \<open>The client before \<open>__post_init__\<close>.\<close>

definition fresh :: AudioStationRemote where
  "fresh = \<lparr>hostname = str ''nas.local'', port = str ''5001'', account = str ''me'',
            password = str ''secret'', remote_player = REMOTE_PLAYER_NAME, verify = False,
            last_fm_network = Some LastFMNetwork, version = 1, endpoint = [],
            player_id = None, versions = []\<rparr>"

text \<open>An artist tag.\<close>

definition miles :: json where
  "miles = JStr (str ''Miles Davis'')"

text \<open>
  A tracking service whose first call fails with a network error, a device that keeps
  playing one track, and the loop after \<open>setup\<close>.
\<close>

definition flaky :: env where
  "flaky = scripted 200
             [status_reply ''playing'' ''So What'' [(str ''song_tag'', JDict blue_tags)],
              status_reply ''playing'' ''So What'' [(str ''song_tag'', JDict blue_tags)]]
             [] [Inl NetworkError]"

definition so_what :: json where
  "so_what = JDict ((str ''title'', JStr (str ''So What'')) # blue_tags)"

definition cfg0 :: config where
  "cfg0 = \<lparr>DSM_HOSTNAME = str ''nas.local'', USERNAME = str ''me'', PASSWORD = str ''secret''\<rparr>"

definition polling :: main_state where
  "polling = \<lparr>network = Some LastFMNetwork, remote = Some salon, current_track = JDict []\<rparr>"

definition announced :: event where
  "announced = UpdateNowPlaying (JStr (str ''Miles Davis'')) (JStr (str ''So What''))
                 (JStr (str ''Kind of Blue'')) (JStr (str ''Miles Davis'')) (JInt 1)"

section \<open>Properties\<close>

subsection \<open>Sequencing\<close>

lemma io_bind_lift_Inr [simp]: "io_bind (lift (Inr x)) f w = f x w"
  by (simp add: io_bind_def lift_def)

lemma io_bind_lift_Inl [simp]: "io_bind (lift (Inl e)) f w = (Inl e, w)"
  by (simp add: io_bind_def lift_def)

lemma io_bind_Inr: "m w = (Inr x, w') \<Longrightarrow> io_bind m f w = f x w'"
  by (simp add: io_bind_def)

lemma io_bind_Inl: "m w = (Inl e, w') \<Longrightarrow> io_bind m f w = (Inl e, w')"
  by (simp add: io_bind_def)

lemma py_eq_JStr [simp]: "py_eq x (JStr s) \<longleftrightarrow> x = JStr s"
  by (cases x) auto

lemma contains_sublist: "contains sub s \<longleftrightarrow> sublist sub s"
  by (induction s) (auto simp: sublist_Cons_right)

subsection \<open>The request primitive\<close>

text \<open>
  C1. Whatever the verb and the HTTP status: when the body of the response is a JSON
  object \<open>envelope\<close> and \<open>err\<close> is \<open>envelope.get("error")\<close>, \<open>request\<close> raises
  \<open>RemotePlayerError(err)\<close> (the class that plays the part of the specification's
  \<open>RemoteAPIError\<close>) if \<open>err\<close> is truthy, and otherwise returns the response, whose
  \<open>json()\<close> is the envelope.
\<close>

theorem request_error_field:
  assumes "encode_data data = Inr body"
    and "session_request E (trace w) v (full_path self path) body (verify self) = Inr r"
    and "json_body r = Some (JDict envelope)"
    and "py_get (JDict envelope) (str ''error'') JNull = Inr err"
  shows "fst (request E self v path data w)
           = (if truthy err then Inl (RemotePlayerError err) else Inr r)
         \<and> response_json r = Inr (JDict envelope)"
  using assms
  by (simp add: request_def send_def io_bind_def response_json_def raise_def ret_def lift_def)

theorem request_error_field_witness:
  "fst (request
          (scripted 500 [JDict [(str ''error'', JDict [(str ''code'', JInt 105)]),
                                (str ''success'', JBool False)]] [] [])
          salon POST (str ''webapi/AudioStation/remote_player.cgi'')
          (Some (str ''method=list'')) world0)
     = Inl (RemotePlayerError (JDict [(str ''code'', JInt 105)]))"
  using request_error_field [of "Some (str ''method=list'')" "Some (str ''method=list'')"
     "scripted 500 [JDict [(str ''error'', JDict [(str ''code'', JInt 105)]),
                           (str ''success'', JBool False)]] [] []"
     world0 POST salon "str ''webapi/AudioStation/remote_player.cgi''"
     "\<lparr>status_code = 500,
       json_body = Some (JDict [(str ''error'', JDict [(str ''code'', JInt 105)]),
                                (str ''success'', JBool False)])\<rparr>"
     "[(str ''error'', JDict [(str ''code'', JInt 105)]), (str ''success'', JBool False)]"
     "JDict [(str ''code'', JInt 105)]"]
  by (simp add: encode_data_def encode_def str_def is_surrogate_def utf8_def scripted_def
        world0_def salon_def)

text \<open>How the scripted device answers the status request of the client \<open>salon\<close>.\<close>

lemmas run_defs =
  request_def send_def login_path_def io_bind_def lift_def ret_def raise_def response_json_def full_path_def
  encode_data_def encode_def is_surrogate_def utf8_def str_def scripted_def world0_def
  salon_def record_event_def fstr_def

lemma status_run:
  "get_remote_player_status (scripted 200 (status_reply st t additional # later) similar tracking)
     salon world0
     = (Inr (status_of st t additional), record_event status_request world0)"
  by (simp add: get_remote_player_status_def run_defs status_reply_def status_request_def)

lemma subscript_Inr:
  "subscript d k = Inr v \<Longrightarrow> \<exists>kvs. d = JDict kvs \<and> map_of kvs k = Some v"
  by (cases d) (auto split: option.splits)

lemma py_get_subscript: "subscript d k = Inr v \<Longrightarrow> py_get d k dflt = Inr v"
  by (cases d) (auto split: option.splits)

subsection \<open>Player resolution\<close>

lemma next_player_id_find:
  "list_all is_player ps \<Longrightarrow>
   next_player_id ps =
     (case find (\<lambda>x. subscript x (str ''name'') = Inr (JStr REMOTE_PLAYER_NAME)) ps of
        None \<Rightarrow> Inl StopIteration
      | Some x \<Rightarrow> subscript x (str ''id''))"
  by (induction ps) (auto simp: is_player_def split: sum.splits)

lemma players_run:
  "list_remote_players (scripted 200 (players_reply ps # later) [] []) salon world0
     = (Inr (players_reply ps),
        record_event
          (Request POST (str ''https://nas.local:5001/webapi/AudioStation/remote_player.cgi'')
             (Some (str ''api=SYNO.AudioStation.RemotePlayer&version=3&method=list'')) False)
          world0)"
  by (simp add: list_remote_players_def run_defs players_reply_def)

text \<open>
  C2, as stated, fails twice. The generator compares the names with the module constant
  \<open>REMOTE_PLAYER_NAME\<close> and never reads \<open>self.remote_player\<close>: a client constructed for
  the player \<open>A\<close> resolves to the id of \<open>Salon (DLNA)\<close>. And when no player has the
  name, \<open>next\<close> raises the builtin \<open>StopIteration\<close>, which is no exception class of this
  program (it has no \<open>PlayerNotFoundError\<close>).
\<close>

theorem get_remote_player_id_counterexample:
  "fst (get_remote_player_id
          (scripted 200 [players_reply [player ''1'' ''A'', player ''2'' ''Salon (DLNA)'']] [] [])
          (salon\<lparr>remote_player := str ''A''\<rparr>) world0)
     = Inr (JStr (str ''2''),
            salon\<lparr>remote_player := str ''A'', player_id := Some (JStr (str ''2''))\<rparr>)
   \<and> fst (get_remote_player_id
          (scripted 200 [players_reply [player ''1'' ''A'', player ''2'' ''B'']] [] [])
          salon world0)
     = Inl StopIteration
   \<and> \<not> is_RemotePlayerError StopIteration"
  by (simp add: get_remote_player_id_def list_remote_players_def run_defs players_reply_def
        player_def REMOTE_PLAYER_NAME_def)

text \<open>
  C2, amended. For a client whose configured target name is \<open>REMOTE_PLAYER_NAME\<close> (as
  \<open>setup\<close> constructs it) and a player list whose entries all have a name and an id:
  player resolution returns, and stores in \<open>player_id\<close>, the id of the first player
  whose name is exactly the target name, and raises \<open>StopIteration\<close> when no player
  has that name.
\<close>

theorem get_remote_player_id_first_match:
  assumes "list_remote_players E self w = (Inr listing, w')"
    and "subscript listing (str ''data'') = Inr d"
    and "subscript d (str ''players'') = Inr (JList ps)"
    and "list_all is_player ps"
    and "remote_player self = REMOTE_PLAYER_NAME"
  shows "get_remote_player_id E self w =
           (case find (\<lambda>x. subscript x (str ''name'') = Inr (JStr (remote_player self))) ps of
              None \<Rightarrow> (Inl StopIteration, w')
            | Some x \<Rightarrow>
                (case subscript x (str ''id'') of
                   Inl e \<Rightarrow> (Inl e, w')
                 | Inr i \<Rightarrow> (Inr (i, self\<lparr>player_id := Some i\<rparr>), w')))"
  unfolding get_remote_player_id_def
  using assms(2-5)
  by (simp add: io_bind_Inr [where m = "list_remote_players E self", OF assms(1)]
        next_player_id_find ret_def split: option.splits sum.splits)

theorem get_remote_player_id_first_match_witness:
  "fst (get_remote_player_id
          (scripted 200 [players_reply [player ''1'' ''A'', player ''2'' ''B'',
                                        player ''3'' ''Salon (DLNA)'']] [] [])
          salon world0)
     = Inr (JStr (str ''3''), salon\<lparr>player_id := Some (JStr (str ''3''))\<rparr>)"
proof -
  let ?ps = "[player ''1'' ''A'', player ''2'' ''B'', player ''3'' ''Salon (DLNA)'']"
  have h2: "subscript (players_reply ?ps) (str ''data'')
              = Inr (JDict [(str ''players'', JList ?ps)])"
    by (simp add: players_reply_def str_def)
  have h3: "subscript (JDict [(str ''players'', JList ?ps)]) (str ''players'') = Inr (JList ?ps)"
    by simp
  have h4: "list_all is_player ?ps"
    by (simp add: is_player_def player_def str_def)
  have h5: "remote_player salon = REMOTE_PLAYER_NAME"
    by (simp add: salon_def)
  show ?thesis
    using get_remote_player_id_first_match [OF players_run h2 h3 h4 h5]
    by (simp add: player_def str_def salon_def REMOTE_PLAYER_NAME_def)
qed

subsection \<open>Now playing\<close>

lemma map_of_fold_update:
  "distinct (map fst kvs) \<Longrightarrow>
   map_of (fold (\<lambda>(k, v). AList.update k v) kvs acc) = map_of acc ++ map_of kvs"
proof (induction kvs arbitrary: acc)
  case Nil
  then show ?case by simp
next
  case (Cons kv kvs)
  obtain k v where kv: "kv = (k, v)" by (cases kv)
  from Cons.prems kv have fresh: "map_of kvs k = None" and rest: "distinct (map fst kvs)"
    by (auto simp: map_of_eq_None_iff)
  have "fold (\<lambda>(k, v). AList.update k v) (kv # kvs) acc
          = fold (\<lambda>(k, v). AList.update k v) kvs (AList.update k v acc)"
    by (simp add: kv)
  then have "map_of (fold (\<lambda>(k, v). AList.update k v) (kv # kvs) acc)
          = map_of (AList.update k v acc) ++ map_of kvs"
    by (simp only: Cons.IH [OF rest])
  also have "\<dots> = (map_of acc)(k \<mapsto> v) ++ map_of kvs"
    by (simp only: update_conv')
  also have "\<dots> = map_of acc ++ (map_of kvs)(k \<mapsto> v)"
    using fresh by (auto simp: fun_eq_iff map_add_def split: option.splits)
  also have "\<dots> = map_of acc ++ map_of (kv # kvs)"
    by (simp only: kv map_of.simps fst_conv snd_conv)
  finally show ?case .
qed

lemma merged_map:
  assumes "distinct (map fst tags)"
  shows "map_of (fold (\<lambda>(k, v). AList.update k v) tags [(str ''title'', t)])
           = [str ''title'' \<mapsto> t] ++ map_of tags"
proof -
  have "map_of [(str ''title'', t)] = [str ''title'' \<mapsto> t]" by simp
  with map_of_fold_update [OF assms, of "[(str ''title'', t)]"] show ?thesis by (simp only:)
qed

lemma merged_keys:
  assumes "distinct (map fst tags)"
  shows "list_all (\<lambda>(k, v). ([str ''title'' \<mapsto> t] ++ map_of tags) k = Some v) tags"
  using assms by (auto simp: list_all_iff map_add_def)

lemma merged_title:
  "map_of tags (str ''title'') = None
   \<Longrightarrow> ([str ''title'' \<mapsto> t] ++ map_of tags) (str ''title'') = Some t"
  by (simp add: map_add_def)

lemma get_now_playing_run:
  assumes "get_remote_player_status E self w = (Inr info, w')"
    and "subscript info (str ''state'') = Inr (JStr (str ''playing''))"
    and "subscript info (str ''song'') = Inr s"
    and "subscript s (str ''additional'') = Inr additional"
    and "py_get additional (str ''song_tag'') JNull = Inr song"
  shows "get_now_playing E self w =
           (if \<not> truthy song then (Inl (RemotePlayerError (JStr (str ''No info found''))), w')
            else case subscript s (str ''title'') of
                   Inl e \<Rightarrow> (Inl e, w')
                 | Inr t \<Rightarrow> (dict_display t song, w'))"
proof -
  have "get_now_playing E self w =
          (if \<not> truthy song then raise (RemotePlayerError (JStr (str ''No info found'')))
           else io_bind (lift (subscript s (str ''title''))) (\<lambda>t. lift (dict_display t song))) w'"
    unfolding get_now_playing_def
    by (simp add: io_bind_Inr [where m = "get_remote_player_status E self", OF assms(1)]
          assms(2-5))
  then show ?thesis
    by (simp add: raise_def lift_def io_bind_def split: sum.splits)
qed

lemma is_SongTag_title: "is_SongTag tags \<Longrightarrow> map_of tags (str ''title'') = None"
  by (auto simp: is_SongTag_def SongTag_keys_def str_def map_of_eq_None_iff)

lemma is_SongTag_not_empty: "is_SongTag tags \<Longrightarrow> tags \<noteq> []"
  by (auto simp: is_SongTag_def SongTag_keys_def)

text \<open>
  C3. For a player status whose state is \<open>playing\<close> and whose \<open>song.additional\<close> has a
  \<open>song_tag\<close>, a \<open>SongTag\<close>: \<open>get_now_playing\<close> returns the dict
  \<open>{"title": song title, **song_tag}\<close>. Every key of \<open>song_tag\<close> is in the result with
  its value, and the key \<open>title\<close> holds the song's title.
\<close>

theorem get_now_playing_merges_tags:
  assumes "get_remote_player_status E self w = (Inr info, w')"
    and "subscript info (str ''state'') = Inr (JStr (str ''playing''))"
    and "subscript info (str ''song'') = Inr s"
    and "subscript s (str ''title'') = Inr t"
    and "subscript s (str ''additional'') = Inr additional"
    and "subscript additional (str ''song_tag'') = Inr (JDict tags)"
    and "is_SongTag tags"
  shows "\<exists>np. get_now_playing E self w = (Inr (JDict np), w')
           \<and> map_of np = [str ''title'' \<mapsto> t] ++ map_of tags
           \<and> list_all (\<lambda>(k, v). map_of np k = Some v) tags
           \<and> map_of np (str ''title'') = Some t"
proof -
  let ?np = "fold (\<lambda>(k, v). AList.update k v) tags [(str ''title'', t)]"
  have dist: "distinct (map fst tags)"
    using assms(7) by (simp add: is_SongTag_def)
  have song: "py_get additional (str ''song_tag'') JNull = Inr (JDict tags)"
    using assms(6) by (rule py_get_subscript)
  have d: "dict_display t (JDict tags) = Inr (JDict ?np)"
    by (simp add: dict_display_def)
  have tr: "truthy (JDict tags)"
    using is_SongTag_not_empty [OF assms(7)] by simp
  have run: "get_now_playing E self w = (Inr (JDict ?np), w')"
    unfolding get_now_playing_run [OF assms(1,2,3,5) song]
    by (simp only: tr d assms(4) not_True_eq_False if_False sum.case)
  have m: "map_of ?np = [str ''title'' \<mapsto> t] ++ map_of tags"
    by (rule merged_map [OF dist])
  show ?thesis
  proof (intro exI conjI)
    show "get_now_playing E self w = (Inr (JDict ?np), w')"
      by (rule run)
    show "map_of ?np = [str ''title'' \<mapsto> t] ++ map_of tags"
      by (rule m)
    show "list_all (\<lambda>(k, v). map_of ?np k = Some v) tags"
      unfolding m by (rule merged_keys [OF dist])
    show "map_of ?np (str ''title'') = Some t"
      unfolding m by (rule merged_title [OF is_SongTag_title [OF assms(7)]])
  qed
qed

lemma status_fields:
  "subscript (status_of st t additional) (str ''state'') = Inr (JStr (str st))"
  "subscript (status_of st t additional) (str ''song'') = Inr (song_of t additional)"
  "subscript (song_of t additional) (str ''title'') = Inr (JStr (str t))"
  "subscript (song_of t additional) (str ''additional'') = Inr (JDict additional)"
  by (simp_all add: status_of_def song_of_def str_def)

theorem get_now_playing_merges_tags_witness:
  "\<exists>np. get_now_playing
           (scripted 200 [status_reply ''playing'' ''So What'' [(str ''song_tag'', JDict blue_tags)]]
              [] [])
           salon world0
         = (Inr (JDict np), record_event status_request world0)
       \<and> map_of np (str ''title'') = Some (JStr (str ''So What''))
       \<and> map_of np (str ''artist'') = Some (JStr (str ''Miles Davis''))
       \<and> map_of np (str ''track'') = Some (JInt 1)"
proof -
  let ?E = "scripted 200 [status_reply ''playing'' ''So What'' [(str ''song_tag'', JDict blue_tags)]]
              [] []"
  let ?additional = "[(str ''song_tag'', JDict blue_tags)]"
  have h1: "get_remote_player_status ?E salon world0
              = (Inr (status_of ''playing'' ''So What'' ?additional),
                 record_event status_request world0)"
    by (rule status_run)
  have h6: "subscript (JDict ?additional) (str ''song_tag'') = Inr (JDict blue_tags)"
    by simp
  have h7: "is_SongTag blue_tags"
    by (simp add: is_SongTag_def SongTag_keys_def blue_tags_def str_def)
  from get_now_playing_merges_tags
         [OF h1 status_fields(1) status_fields(2) status_fields(3) status_fields(4) h6 h7]
  obtain np where
    run: "get_now_playing ?E salon world0 = (Inr (JDict np), record_event status_request world0)"
    and m: "map_of np = [str ''title'' \<mapsto> JStr (str ''So What'')] ++ map_of blue_tags"
    by (elim exE conjE) (rule that)
  show ?thesis
  proof (intro exI conjI)
    show "get_now_playing ?E salon world0
            = (Inr (JDict np), record_event status_request world0)"
      by (rule run)
  qed (simp_all add: m blue_tags_def str_def map_add_def)
qed

text \<open>
  C4. For a player status whose state is \<open>playing\<close> and whose \<open>song.additional\<close> has no
  key \<open>song_tag\<close>, \<open>get_now_playing\<close> raises \<open>RemotePlayerError("No info found")\<close>
  (the error that the specification names \<open>NoTrackInfoError\<close>) and returns no result.
\<close>

theorem get_now_playing_no_tags:
  assumes "get_remote_player_status E self w = (Inr info, w')"
    and "subscript info (str ''state'') = Inr (JStr (str ''playing''))"
    and "subscript info (str ''song'') = Inr s"
    and "subscript s (str ''additional'') = Inr (JDict additional)"
    and "map_of additional (str ''song_tag'') = None"
  shows "get_now_playing E self w
           = (Inl (RemotePlayerError (JStr (str ''No info found''))), w')"
proof -
  have "py_get (JDict additional) (str ''song_tag'') JNull = Inr JNull"
    using assms(5) by simp
  from get_now_playing_run [OF assms(1-4) this] show ?thesis by simp
qed

theorem get_now_playing_no_tags_witness:
  "get_now_playing
     (scripted 200 [status_reply ''playing'' ''Radio 1'' [(str ''song_rating'', JInt 0)]] [] [])
     salon world0
   = (Inl (RemotePlayerError (JStr (str ''No info found''))),
      record_event status_request world0)"
proof -
  have h5: "map_of [(str ''song_rating'', JInt 0)] (str ''song_tag'') = None"
    by (simp add: str_def)
  show ?thesis
    by (rule get_now_playing_no_tags
          [OF status_run status_fields(1) status_fields(2) status_fields(4) h5])
qed

text \<open>
  C5. For a player status whose state is anything but \<open>playing\<close>, \<open>get_now_playing\<close>
  returns \<open>None\<close>; the rest of the status, the song among it, is not read.
\<close>

theorem get_now_playing_not_playing:
  assumes "get_remote_player_status E self w = (Inr info, w')"
    and "subscript info (str ''state'') = Inr st"
    and "st \<noteq> JStr (str ''playing'')"
  shows "get_now_playing E self w = (Inr JNull, w')"
  unfolding get_now_playing_def
  using assms(2,3)
  by (simp add: io_bind_Inr [where m = "get_remote_player_status E self", OF assms(1)] ret_def)

theorem get_now_playing_not_playing_witness:
  "get_now_playing
     (scripted 200 [status_reply ''paused'' ''So What'' [(str ''song_tag'', JDict blue_tags)]]
        [] [])
     salon world0
   = (Inr JNull, record_event status_request world0)"
proof -
  have h3: "JStr (str ''paused'') \<noteq> JStr (str ''playing'')"
    by (simp add: str_def)
  show ?thesis
    by (rule get_now_playing_not_playing [OF status_run status_fields(1) h3])
qed

subsection \<open>Artist search\<close>

lemma encode_append_None:
  "encode artist = None \<Longrightarrow> encode (a @ artist @ b) = None"
  by (simp add: encode_def split: if_splits)

text \<open>
  C8. For an artist name that \<open>str.encode()\<close> rejects, the request body, which has the
  name inside, is rejected as well, and \<open>search_for_artist\<close> returns the empty dict
  \<open>{}\<close>: the \<open>UnicodeEncodeError\<close> is caught, and nothing was sent to the device.
\<close>

theorem search_for_artist_unencodable:
  assumes "encode artist = None"
  shows "encode (search_data artist) = None
         \<and> search_for_artist E self artist w = (Inr (JDict []), w)"
proof -
  have body: "encode (search_data artist) = None"
    unfolding search_data_def using assms by (rule encode_append_None)
  then have "encode_data (Some (search_data artist)) = Inl UnicodeEncodeError"
    by (simp add: encode_data_def)
  then have "search_for_artist E self artist w = (Inr (JDict []), w)"
    by (simp add: search_for_artist_def request_def io_bind_def lift_def)
  with body show ?thesis by simp
qed

theorem search_for_artist_unencodable_witness:
  "encode [77, 55357] = None
   \<and> search_for_artist (scripted 200 [search_reply [''Miles Davis'']] [] []) salon [77, 55357] world0
       = (Inr (JDict []), world0)"
proof -
  have h: "encode [77, 55357] = None"
    by (simp add: encode_def is_surrogate_def)
  from search_for_artist_unencodable [OF h] h show ?thesis by simp
qed

subsection \<open>Construction\<close>

lemma py_items_Inr: "py_items d = Inr items \<Longrightarrow> d = JDict items"
  by (cases d) auto

lemma get_remote_player_id_self:
  "get_remote_player_id E self w = (Inr (pid, self'), w')
   \<Longrightarrow> self' = self\<lparr>player_id := Some pid\<rparr>"
  by (auto simp: get_remote_player_id_def io_bind_def lift_def ret_def
           split: sum.splits prod.splits)

text \<open>
  C9. A client that construction produced holds, as \<open>versions\<close>, exactly the items of
  the \<open>data\<close> of the capability-discovery response whose key has \<open>Audio\<close> as a
  substring, in their order: every other item is dropped.
\<close>

theorem post_init_versions:
  assumes "post_init E self0 w = (Inr self', w')"
  shows "\<exists>response w1 items.
           query_syno_api_info E (self0\<lparr>endpoint := hostname self0 @ str '':'' @ port self0\<rparr>) w
             = (Inr response, w1)
           \<and> subscript response (str ''data'') = Inr (JDict items)
           \<and> versions self' = filter (\<lambda>(k, v). sublist (str ''Audio'') k) items"
proof -
  let ?self1 = "self0\<lparr>endpoint := hostname self0 @ str '':'' @ port self0\<rparr>"
  obtain r1 w1 where q: "query_syno_api_info E ?self1 w = (r1, w1)"
    by (cases "query_syno_api_info E ?self1 w")
  from assms q obtain response where r1: "r1 = Inr response"
    by (cases r1) (auto simp: post_init_def Let_def io_bind_def)
  from assms q r1 obtain d where d: "subscript response (str ''data'') = Inr d"
    by (cases "subscript response (str ''data'')")
       (auto simp: post_init_def Let_def io_bind_def lift_def)
  from assms q r1 d obtain items where items: "py_items d = Inr items"
    by (cases "py_items d") (auto simp: post_init_def Let_def io_bind_def lift_def)
  let ?self2 = "?self1\<lparr>versions := filter (\<lambda>(k, v). contains (str ''Audio'') k) items\<rparr>"
  from assms q r1 d items obtain pid self3 w2 w3
    where "get_remote_player_id E ?self2 w2 = (Inr (pid, self3), w3)" and "self' = self3"
    by (auto simp: post_init_def Let_def io_bind_def lift_def ret_def
             split: sum.splits prod.splits)
  then have "versions self' = filter (\<lambda>(k, v). contains (str ''Audio'') k) items"
    by (auto dest: get_remote_player_id_self)
  then have "versions self' = filter (\<lambda>(k, v). sublist (str ''Audio'') k) items"
    by (simp add: contains_sublist)
  with q r1 d py_items_Inr [OF items] show ?thesis by blast
qed

lemmas construction_defs =
  post_init_def new_AudioStationRemote_def query_syno_api_info_def login_def
  get_remote_player_id_def list_remote_players_def discovery_reply_def login_reply_def
  error_reply_def players_reply_def player_def api_def fresh_def REMOTE_PLAYER_NAME_def

lemma construction_run:
  "fst (post_init
          (scripted 200 [discovery_reply, login_reply,
                         players_reply [player ''3'' ''Salon (DLNA)'']] [] [])
          fresh world0)
     = Inr (fresh\<lparr>endpoint := str ''nas.local:5001'',
                  versions := [(str ''SYNO.AudioStation.Artist'', api ''AudioStation/artist.cgi''),
                               (str ''SYNO.AudioStation.RemotePlayer'',
                                api ''AudioStation/remote_player.cgi'')],
                  player_id := Some (JStr (str ''3''))\<rparr>)"
  by (simp add: construction_defs run_defs Let_def)

theorem post_init_versions_witness:
  "\<exists>response w1 items.
     query_syno_api_info
       (scripted 200 [discovery_reply, login_reply,
                      players_reply [player ''3'' ''Salon (DLNA)'']] [] [])
       (fresh\<lparr>endpoint := hostname fresh @ str '':'' @ port fresh\<rparr>) world0
       = (Inr response, w1)
     \<and> subscript response (str ''data'') = Inr (JDict items)
     \<and> [(str ''SYNO.AudioStation.Artist'', api ''AudioStation/artist.cgi''),
         (str ''SYNO.AudioStation.RemotePlayer'', api ''AudioStation/remote_player.cgi'')]
        = filter (\<lambda>(k, v). sublist (str ''Audio'') k) items"
proof -
  let ?E = "scripted 200 [discovery_reply, login_reply,
                          players_reply [player ''3'' ''Salon (DLNA)'']] [] []"
  let ?c = "fresh\<lparr>endpoint := str ''nas.local:5001'',
                  versions := [(str ''SYNO.AudioStation.Artist'', api ''AudioStation/artist.cgi''),
                               (str ''SYNO.AudioStation.RemotePlayer'',
                                api ''AudioStation/remote_player.cgi'')],
                  player_id := Some (JStr (str ''3''))\<rparr>"
  have run: "post_init ?E fresh world0 = (Inr ?c, snd (post_init ?E fresh world0))"
    using construction_run by (simp add: prod_eq_iff)
  from post_init_versions [OF run] show ?thesis by simp
qed

text \<open>
  C6, as stated, fails: there is no \<open>AuthenticationError\<close>. An error envelope in answer
  to the login makes construction fail with the \<open>RemotePlayerError\<close> that \<open>request\<close>
  raises for any error envelope, the same one that a failed player listing gives.
\<close>

theorem login_error_counterexample:
  "fst (new_AudioStationRemote (scripted 200 [discovery_reply, error_reply 400] [] [])
          (str ''nas.local'') (str ''5001'') (str ''me'') (str ''wrong'') REMOTE_PLAYER_NAME None
          world0)
     = Inl (RemotePlayerError (JDict [(str ''code'', JInt 400)]))
   \<and> fst (list_remote_players (scripted 200 [error_reply 400] [] []) salon world0)
     = Inl (RemotePlayerError (JDict [(str ''code'', JInt 400)]))
   \<and> is_RemotePlayerError (RemotePlayerError (JDict [(str ''code'', JInt 400)]))"
  by (simp add: construction_defs run_defs Let_def)

text \<open>
  C6, amended. If capability discovery went through and the device answers the login
  with an envelope whose \<open>error\<close> field is truthy, construction fails with
  \<open>RemotePlayerError\<close> carrying that error payload: the very exception of the request
  primitive, of no type of its own.
\<close>

theorem login_error_fails_construction:
  assumes "self1 = self0\<lparr>endpoint := hostname self0 @ str '':'' @ port self0\<rparr>"
    and "query_syno_api_info E self1 w = (Inr response, w1)"
    and "subscript response (str ''data'') = Inr (JDict items)"
    and "session_request E (trace w1) GET (full_path self1 (login_path self0)) None (verify self0)
           = Inr r"
    and "json_body r = Some (JDict envelope)"
    and "py_get (JDict envelope) (str ''error'') JNull = Inr err"
    and "truthy err"
  shows "fst (post_init E self0 w) = Inl (RemotePlayerError err)
         \<and> fst (request E self1 GET (login_path self0) None w1) = Inl (RemotePlayerError err)"
proof -
  let ?self2 = "self1\<lparr>versions := filter (\<lambda>(k, v). contains (str ''Audio'') k) items\<rparr>"
  have req: "fst (request E self1 GET (login_path self0) None w1) = Inl (RemotePlayerError err)"
    using assms(4-7)
    by (simp add: assms(1) request_def send_def io_bind_def response_json_def raise_def
          lift_def encode_data_def)
  have same: "request E ?self2 GET (login_path ?self2) None = request E self1 GET (login_path self0) None"
    by (simp add: request_def full_path_def login_path_def assms(1) fun_eq_iff)
  obtain w2 where "request E self1 GET (login_path self0) None w1
                     = (Inl (RemotePlayerError err), w2)"
    using req by (cases "request E self1 GET (login_path self0) None w1") simp
  then have "login E ?self2 w1 = (Inl (RemotePlayerError err), w2)"
    by (simp add: login_def same io_bind_def)
  then have "post_init E self0 w = (Inl (RemotePlayerError err), w2)"
    using assms(2,3)
    by (simp add: post_init_def Let_def assms(1) [symmetric] io_bind_def lift_def)
  with req show ?thesis by simp
qed

theorem login_error_fails_construction_witness:
  "fst (post_init (scripted 200 [discovery_reply, error_reply 400] [] []) fresh world0)
     = Inl (RemotePlayerError (JDict [(str ''code'', JInt 400)]))"
proof -
  let ?E = "scripted 200 [discovery_reply, error_reply 400] [] []"
  let ?self1 = "fresh\<lparr>endpoint := hostname fresh @ str '':'' @ port fresh\<rparr>"
  let ?w1 = "record_event
               (Request GET
                  (str ''https://nas.local:5001/webapi/entry.cgi?api=SYNO.API.Info&version=1&method=query'')
                  None False)
               world0"
  let ?items = "[(str ''SYNO.API.Auth'', api ''entry.cgi''),
                 (str ''SYNO.AudioStation.Artist'', api ''AudioStation/artist.cgi''),
                 (str ''SYNO.AudioStation.RemotePlayer'', api ''AudioStation/remote_player.cgi''),
                 (str ''SYNO.FileStation.List'', api ''entry.cgi'')]"
  let ?envelope = "[(str ''error'', JDict [(str ''code'', JInt 400)]),
                    (str ''success'', JBool False)]"
  have h2: "query_syno_api_info ?E ?self1 world0 = (Inr discovery_reply, ?w1)"
    by (simp add: query_syno_api_info_def run_defs fresh_def discovery_reply_def)
  have h3: "subscript discovery_reply (str ''data'') = Inr (JDict ?items)"
    by (simp add: discovery_reply_def str_def)
  have h4: "session_request ?E (trace ?w1) GET (full_path ?self1 (login_path fresh)) None
              (verify fresh)
            = Inr \<lparr>status_code = 200, json_body = Some (JDict ?envelope)\<rparr>"
    by (simp add: scripted_def record_event_def world0_def error_reply_def)
  have h6: "py_get (JDict ?envelope) (str ''error'') JNull = Inr (JDict [(str ''code'', JInt 400)])"
    by simp
  have h7: "truthy (JDict [(str ''code'', JInt 400)])"
    by simp
  from login_error_fails_construction [OF refl h2 h3 h4 _ h6 h7]
  show ?thesis by simp
qed

subsection \<open>The cache of similar artists\<close>

lemma request_cache:
  "request E self v path data w = (r, w') \<Longrightarrow> SIMILAR_ARTISTS w' = SIMILAR_ARTISTS w"
  by (auto simp: request_def send_def io_bind_def lift_def raise_def ret_def record_event_def
           split: sum.splits if_splits)

lemma search_for_artist_cache:
  assumes "search_for_artist E self artist w = (r, w')"
  shows "SIMILAR_ARTISTS w' = SIMILAR_ARTISTS w"
proof -
  obtain r0 w0 where req: "request E self POST (str ''webapi/AudioStation/artist.cgi'')
                             (Some (search_data artist)) w = (r0, w0)"
    by (cases "request E self POST (str ''webapi/AudioStation/artist.cgi'')
                 (Some (search_data artist)) w")
  from assms req have "w' = w0"
    by (auto simp: search_for_artist_def io_bind_def lift_def split: sum.splits if_splits)
  with request_cache [OF req] show ?thesis by simp
qed

lemma search_all_cache:
  "search_all E self xs acc w = (r, w') \<Longrightarrow> SIMILAR_ARTISTS w' = SIMILAR_ARTISTS w"
proof (induction xs arbitrary: acc w)
  case Nil
  then show ?case by simp
next
  case (Cons x xs)
  obtain r1 w1 where s: "search_for_artist E self x w = (r1, w1)"
    by (cases "search_for_artist E self x w")
  have c1: "SIMILAR_ARTISTS w1 = SIMILAR_ARTISTS w"
    by (rule search_for_artist_cache [OF s])
  from Cons.prems s have "w' = w1 \<or> (\<exists>acc'. search_all E self xs acc' w1 = (r, w'))"
    by (auto split: sum.splits prod.splits option.splits)
  then show ?case
    using c1 Cons.IH by auto
qed

lemma get_similar_artists_hit:
  assumes "last_fm_network self = Some n"
    and "hashable artist"
    and "SIMILAR_ARTISTS w (dict_key artist) = Some s"
    and "s \<noteq> {}"
  shows "get_similar_artists E self artist limit w = (Inr s, w)"
  using assms by (simp add: get_similar_artists_def)

text \<open>
  A result that is not empty is memoized: a later call for the same artist returns it
  and leaves the world as it is.
\<close>

lemma get_similar_artists_memoized:
  assumes "get_similar_artists E self artist limit w = (Inr s, w')"
    and "s \<noteq> {}"
  shows "get_similar_artists E' self artist limit' w' = (Inr s, w')"
proof -
  from assms obtain n where n: "last_fm_network self = Some n"
    by (cases "last_fm_network self") (auto simp: get_similar_artists_def)
  from assms n have h: "hashable artist"
    by (auto simp: get_similar_artists_def split: if_splits)
  have "SIMILAR_ARTISTS w' (dict_key artist) = Some s"
  proof (cases "SIMILAR_ARTISTS w (dict_key artist) = Some s")
    case True
    with assms n h show ?thesis
      by (simp add: get_similar_artists_def)
  next
    case False
    with assms n h obtain w2 where "w' = store artist s w2"
      by (auto simp: get_similar_artists_def Let_def
               split: if_splits option.splits sum.splits prod.splits)
    then show ?thesis
      by (simp add: store_def)
  qed
  then show ?thesis
    by (rule get_similar_artists_hit [OF n h _ assms(2)])
qed

lemma trace_record_event [simp]: "trace (record_event ev w) = trace w @ [ev]"
  by (simp add: record_event_def)

lemma trace_store [simp]: "trace (store artist s w) = trace w"
  by (simp add: store_def)

lemma request_extends:
  "request E self v path data w = (r, w') \<Longrightarrow> prefix (trace w) (trace w')"
  by (auto simp: request_def send_def io_bind_def lift_def raise_def ret_def
           split: sum.splits if_splits)

lemma search_for_artist_extends:
  assumes "search_for_artist E self artist w = (r, w')"
  shows "prefix (trace w) (trace w')"
proof -
  obtain r0 w0 where req: "request E self POST (str ''webapi/AudioStation/artist.cgi'')
                             (Some (search_data artist)) w = (r0, w0)"
    by (cases "request E self POST (str ''webapi/AudioStation/artist.cgi'')
                 (Some (search_data artist)) w")
  from assms req have "w' = w0"
    by (auto simp: search_for_artist_def io_bind_def lift_def split: sum.splits if_splits)
  with request_extends [OF req] show ?thesis by simp
qed

lemma search_all_extends:
  "search_all E self xs acc w = (r, w') \<Longrightarrow> prefix (trace w) (trace w')"
proof (induction xs arbitrary: acc w)
  case Nil
  then show ?case by simp
next
  case (Cons x xs)
  obtain r1 w1 where s: "search_for_artist E self x w = (r1, w1)"
    by (cases "search_for_artist E self x w")
  have c1: "prefix (trace w) (trace w1)"
    by (rule search_for_artist_extends [OF s])
  from Cons.prems s have "w' = w1 \<or> (\<exists>acc'. search_all E self xs acc' w1 = (r, w'))"
    by (auto split: sum.splits prod.splits option.splits)
  then show ?case
    using c1 Cons.IH by (auto intro: prefix_order.trans)
qed

lemma get_similar_artists_extends:
  assumes "get_similar_artists E self artist limit w = (r, w')"
  shows "prefix (trace w) (trace w')"
proof (cases "last_fm_network self")
  case None
  with assms show ?thesis by (simp add: get_similar_artists_def)
next
  case (Some n)
  show ?thesis
  proof (cases "hashable artist
                \<and> (case SIMILAR_ARTISTS w (dict_key artist) of None \<Rightarrow> {} | Some s \<Rightarrow> s) = {}")
    case False
    with assms Some show ?thesis
      by (auto simp: get_similar_artists_def Let_def split: if_splits)
  next
    case True
    obtain r1 w1 where g: "get_similar E n artist limit w = (r1, w1)"
      by (cases "get_similar E n artist limit w")
    then have t1: "trace w1 = trace w @ [GetSimilar artist limit]"
      by (auto simp: get_similar_def split: sum.splits)
    show ?thesis
    proof (cases r1)
      case (Inl e)
      with assms Some True g t1 show ?thesis
        by (auto simp: get_similar_artists_def Let_def)
    next
      case (Inr names)
      obtain r2 w2 where sa: "search_all E self names {} w1 = (r2, w2)"
        by (cases "search_all E self names {} w1")
      from search_all_extends [OF sa] t1 have "prefix (trace w) (trace w2)"
        by (auto elim: prefixE)
      moreover from assms Some True g Inr sa have "trace w' = trace w2"
        by (auto simp: get_similar_artists_def Let_def split: option.splits prod.splits)
      ultimately show ?thesis by simp
    qed
  qed
qed

text \<open>
  C7. The code misses the claim for an artist whose lookup comes back empty. With
  Last.fm configured, a call that returns the empty set has stored it in
  \<open>SIMILAR_ARTISTS\<close>; the test \<open>if similar_artists_set := SIMILAR_ARTISTS.get(artist, set())\<close>
  of the next call takes the cached empty set for a miss, and the call, whatever its limit
  and whatever the collaborators answer, asks Last.fm again: its first event is a new
  \<open>GetSimilar\<close> for the artist.
\<close>

theorem get_similar_artists_empty_not_a_hit:
  assumes "last_fm_network self = Some n"
    and "get_similar_artists E self artist limit w = (Inr {}, w')"
  shows "SIMILAR_ARTISTS w' (dict_key artist) = Some {}
         \<and> (\<exists>rest. trace (snd (get_similar_artists E2 self artist limit2 w'))
                      = trace w' @ GetSimilar artist limit2 # rest)"
proof -
  from assms have h: "hashable artist"
    by (auto simp: get_similar_artists_def split: if_splits)
  from assms h obtain w2 where "w' = store artist {} w2"
    by (auto simp: get_similar_artists_def Let_def
             split: if_splits option.splits sum.splits prod.splits)
  then have cached: "SIMILAR_ARTISTS w' (dict_key artist) = Some {}"
    by (simp add: store_def)
  obtain r1 w1 where g: "get_similar E2 n artist limit2 w' = (r1, w1)"
    by (cases "get_similar E2 n artist limit2 w'")
  then have t1: "trace w1 = trace w' @ [GetSimilar artist limit2]"
    by (auto simp: get_similar_def split: sum.splits)
  have "\<exists>rest. trace (snd (get_similar_artists E2 self artist limit2 w'))
                  = trace w' @ GetSimilar artist limit2 # rest"
  proof (cases r1)
    case (Inl e)
    with assms(1) h cached g t1 show ?thesis
      by (simp add: get_similar_artists_def)
  next
    case (Inr names)
    obtain r2 w3 where sa: "search_all E2 self names {} w1 = (r2, w3)"
      by (cases "search_all E2 self names {} w1")
    from search_all_extends [OF sa] t1
    obtain rest where "trace w3 = trace w' @ GetSimilar artist limit2 # rest"
      by (auto elim: prefixE)
    moreover from assms(1) h cached g Inr sa
    have "trace (snd (get_similar_artists E2 self artist limit2 w')) = trace w3"
      by (auto simp: get_similar_artists_def split: option.splits prod.splits)
    ultimately show ?thesis by simp
  qed
  with cached show ?thesis by simp
qed

text \<open>
  Last.fm knows one artist similar to Miles Davis, the device has none of that name:
  both calls return the empty set, and the second asks Last.fm and the device again.
\<close>

lemma get_similar_artists_asks_twice:
  "fst (get_similar_artists
          (scripted 200 [search_reply [], search_reply []]
             [Inr [str ''Bill Evans''], Inr [str ''Bill Evans'']] [])
          salon miles 30 world0)
     = Inr {}
   \<and> map is_get_similar
        (trace (snd (get_similar_artists
          (scripted 200 [search_reply [], search_reply []]
             [Inr [str ''Bill Evans''], Inr [str ''Bill Evans'']] [])
          salon miles 30
          (snd (get_similar_artists
             (scripted 200 [search_reply [], search_reply []]
                [Inr [str ''Bill Evans''], Inr [str ''Bill Evans'']] [])
             salon miles 30 world0)))))
     = [True, False, True, False]"
  by (simp add: get_similar_artists_def get_similar_def search_for_artist_def search_data_def
        run_defs Let_def store_def search_reply_def miles_def nth_or_def)

theorem get_similar_artists_empty_not_a_hit_witness:
  "fst (get_similar_artists
          (scripted 200 [search_reply [], search_reply []]
             [Inr [str ''Bill Evans''], Inr [str ''Bill Evans'']] [])
          salon miles 30 world0)
     = Inr {}
   \<and> SIMILAR_ARTISTS
        (snd (get_similar_artists
                (scripted 200 [search_reply [], search_reply []]
                   [Inr [str ''Bill Evans''], Inr [str ''Bill Evans'']] [])
                salon miles 30 world0))
        miles
     = Some {}
   \<and> (\<exists>rest.
         trace (snd (get_similar_artists
                       (scripted 200 [search_reply [], search_reply []]
                          [Inr [str ''Bill Evans''], Inr [str ''Bill Evans'']] [])
                       salon miles 30
                       (snd (get_similar_artists
                               (scripted 200 [search_reply [], search_reply []]
                                  [Inr [str ''Bill Evans''], Inr [str ''Bill Evans'']] [])
                               salon miles 30 world0))))
         = trace (snd (get_similar_artists
                         (scripted 200 [search_reply [], search_reply []]
                            [Inr [str ''Bill Evans''], Inr [str ''Bill Evans'']] [])
                         salon miles 30 world0))
           @ GetSimilar miles 30 # rest)"
proof -
  let ?E = "scripted 200 [search_reply [], search_reply []]
              [Inr [str ''Bill Evans''], Inr [str ''Bill Evans'']] []"
  have first: "fst (get_similar_artists ?E salon miles 30 world0) = Inr {}"
    using get_similar_artists_asks_twice by simp
  then have run: "get_similar_artists ?E salon miles 30 world0
                    = (Inr {}, snd (get_similar_artists ?E salon miles 30 world0))"
    by (simp add: prod_eq_iff)
  have net: "last_fm_network salon = Some LastFMNetwork"
    by (simp add: salon_def)
  have key: "dict_key miles = miles"
    by (simp add: miles_def)
  from get_similar_artists_empty_not_a_hit [OF net run, of ?E 30] first key
  show ?thesis by simp
qed

subsection \<open>The polling loop\<close>

lemma announce_run:
  assumes "subscript info (str ''title'') = Inr t"
    and "subscript info (str ''artist'') = Inr a"
    and "subscript info (str ''album'') = Inr al"
    and "subscript info (str ''album_artist'') = Inr aa"
    and "subscript info (str ''track'') = Inr tr"
    and "update_now_playing E a t al aa tr w1 = (ru, wu)"
    and "scrobble E a t al aa tr wu = (rs, ws)"
  shows "announce E (Some n) info w1 =
           (case ru of
              Inl e \<Rightarrow> (Inl e, wu)
            | Inr u \<Rightarrow> (case rs of Inl e \<Rightarrow> (Inl e, ws) | Inr u' \<Rightarrow> (Inr a, ws)))"
proof -
  have "announce E (Some n) info w1 =
          io_bind (update_now_playing E a t al aa tr)
            (\<lambda>u. io_bind (scrobble E a t al aa tr) (\<lambda>u'. ret a)) w1"
    by (simp add: announce_def assms(1-5))
  also have "\<dots> = (case ru of
              Inl e \<Rightarrow> (Inl e, wu)
            | Inr u \<Rightarrow> (case rs of Inl e \<Rightarrow> (Inl e, ws) | Inr u' \<Rightarrow> (Inr a, ws)))"
    using assms(6,7) by (simp add: io_bind_def ret_def split: sum.splits)
  finally show ?thesis .
qed

lemma update_now_playing_trace:
  "update_now_playing E a t al aa tr w = (ru, wu)
   \<Longrightarrow> trace wu = trace w @ [UpdateNowPlaying a t al aa tr]"
  by (auto simp: update_now_playing_def)

lemma scrobble_extends:
  "scrobble E a t al aa tr w = (rs, ws) \<Longrightarrow> prefix (trace w) (trace ws)"
  by (auto simp: scrobble_def Let_def)

lemma try_body_emits:
  assumes "get_now_playing E r w = (Inr info, w1)"
    and "truthy info" and "\<not> py_eq ct info"
    and "subscript info (str ''title'') = Inr t"
    and "subscript info (str ''artist'') = Inr a"
    and "subscript info (str ''album'') = Inr al"
    and "subscript info (str ''album_artist'') = Inr aa"
    and "subscript info (str ''track'') = Inr tr"
    and "try_body E (Some n) r ct w = (res, ct', w')"
  shows "prefix (trace w1 @ [UpdateNowPlaying a t al aa tr]) (trace w')"
proof -
  obtain ru wu where upd: "update_now_playing E a t al aa tr w1 = (ru, wu)"
    by (cases "update_now_playing E a t al aa tr w1")
  obtain rs ws where scr: "scrobble E a t al aa tr wu = (rs, ws)"
    by (cases "scrobble E a t al aa tr wu")
  note ann = announce_run [OF assms(4-8) upd scr, of n]
  have tu: "trace wu = trace w1 @ [UpdateNowPlaying a t al aa tr]"
    by (rule update_now_playing_trace [OF upd])
  have us: "prefix (trace wu) (trace ws)"
    by (rule scrobble_extends [OF scr])
  obtain rg wg where gs: "get_similar_artists E r a 30 ws = (rg, wg)"
    by (cases "get_similar_artists E r a 30 ws")
  have sg: "prefix (trace ws) (trace wg)"
    by (rule get_similar_artists_extends [OF gs])
  from assms(1-3,9) ann gs have "w' = wu \<or> w' = ws \<or> w' = wg"
    by (auto simp: try_body_def split: sum.splits)
  with tu us sg show ?thesis
    by (auto intro: prefix_order.trans)
qed

text \<open>
  C10. A turn of the loop in which the device reports a track \<open>info\<close> that differs from
  \<open>current_track\<close> and has the tags the calls read: \<open>current_track\<close> becomes \<open>info\<close>
  exactly when \<open>update_now_playing\<close> and \<open>scrobble\<close> both returned, and stays as it was
  otherwise. When one of the two raises \<open>NetworkError\<close>, the loop goes on with its state
  unchanged, so a later turn (in any world, with any collaborators) to which the device
  reports the same track calls \<open>update_now_playing\<close> for it again, right after the
  status request.
\<close>

theorem current_track_update_atomic:
  assumes "network st = Some n" and "remote st = Some r"
    and "get_now_playing E r w = (Inr info, w1)"
    and "truthy info" and "\<not> py_eq (current_track st) info"
    and "subscript info (str ''title'') = Inr t"
    and "subscript info (str ''artist'') = Inr a"
    and "subscript info (str ''album'') = Inr al"
    and "subscript info (str ''album_artist'') = Inr aa"
    and "subscript info (str ''track'') = Inr tr"
    and "update_now_playing E a t al aa tr w1 = (ru, wu)"
    and "scrobble E a t al aa tr wu = (rs, ws)"
    and "get_now_playing E2 r w' = (Inr info, w2)"
  shows "current_track (fst (snd (main_iteration E cfg st w)))
           = (if ru = Inr () \<and> rs = Inr () then info else current_track st)
         \<and> (ru = Inl NetworkError \<or> (ru = Inr () \<and> rs = Inl NetworkError)
            \<longrightarrow> fst (main_iteration E cfg st w) = Inr ()
                \<and> fst (snd (main_iteration E cfg st w)) = st
                \<and> prefix (trace w2 @ [UpdateNowPlaying a t al aa tr])
                     (trace (snd (snd (main_iteration E2 cfg st w')))))"
proof -
  note ann = announce_run [OF assms(6-12), of n]
  have body: "try_body E (Some n) r (current_track st) w =
                (case ru of
                   Inl e \<Rightarrow> (Some e, current_track st, wu)
                 | Inr u \<Rightarrow>
                     (case rs of
                        Inl e \<Rightarrow> (Some e, current_track st, ws)
                      | Inr u' \<Rightarrow>
                          (case get_similar_artists E r a 30 ws of
                             (Inl e, w3) \<Rightarrow> (Some e, info, w3)
                           | (Inr similar, w3) \<Rightarrow> (None, info, w3))))"
    using assms(3-5) by (simp add: try_body_def ann split: sum.splits)
  have iter: "\<And>E w. main_iteration E cfg st w =
                (case try_body E (Some n) r (current_track st) w of
                   (Some e, ct, w1) \<Rightarrow>
                     if e = NetworkError
                     then (Inr (), st\<lparr>current_track := ct\<rparr>, sleep 5 (sleep 10 w1))
                     else (Inl e, st\<lparr>current_track := ct\<rparr>, w1)
                 | (None, ct, w1) \<Rightarrow> (Inr (), st\<lparr>current_track := ct\<rparr>, sleep 5 w1))"
    using assms(1,2) by (simp add: main_iteration_def ret_def)
  have track: "current_track (fst (snd (main_iteration E cfg st w)))
                 = (if ru = Inr () \<and> rs = Inr () then info else current_track st)"
    by (auto simp: iter body split: sum.splits prod.splits)
  have failed: "fst (main_iteration E cfg st w) = Inr ()
                \<and> fst (snd (main_iteration E cfg st w)) = st"
    if "ru = Inl NetworkError \<or> (ru = Inr () \<and> rs = Inl NetworkError)"
    using that by (auto simp: iter body)
  obtain res ct' wend where tb: "try_body E2 (Some n) r (current_track st) w' = (res, ct', wend)"
    by (cases "try_body E2 (Some n) r (current_track st) w'") auto
  have "prefix (trace w2 @ [UpdateNowPlaying a t al aa tr]) (trace wend)"
    by (rule try_body_emits [OF assms(13) assms(4-10) tb])
  moreover have "prefix (trace wend) (trace (snd (snd (main_iteration E2 cfg st w'))))"
    by (cases res) (auto simp: iter tb sleep_def)
  ultimately have again: "prefix (trace w2 @ [UpdateNowPlaying a t al aa tr])
                            (trace (snd (snd (main_iteration E2 cfg st w'))))"
    by (rule prefix_order.trans)
  from track failed again show ?thesis
    by simp
qed

lemma flaky_first:
  "get_now_playing flaky salon world0 = (Inr so_what, record_event status_request world0)"
  by (simp add: get_now_playing_def flaky_def status_run io_bind_def status_of_def song_of_def
        lift_def dict_display_def so_what_def blue_tags_def str_def)

lemma flaky_announce:
  "announce flaky (Some LastFMNetwork) so_what (record_event status_request world0)
     = (Inl NetworkError, record_event announced (record_event status_request world0))"
  by (simp add: announce_def update_now_playing_def io_bind_def lift_def ret_def so_what_def
        blue_tags_def str_def flaky_def scripted_def nth_or_def record_event_def world0_def
        status_request_def announced_def)

lemma flaky_iteration:
  "main_iteration flaky cfg0 polling world0
     = (Inr (), polling,
        \<lparr>trace = [status_request, announced, Sleep 10, Sleep 5], SIMILAR_ARTISTS = Map.empty\<rparr>)"
proof -
  have "truthy so_what" and "\<not> py_eq (JDict []) so_what"
    by (simp_all add: so_what_def)
  then have "try_body flaky (Some LastFMNetwork) salon (JDict []) world0
          = (Some NetworkError, JDict [],
             record_event announced (record_event status_request world0))"
    by (simp add: try_body_def flaky_first flaky_announce)
  then show ?thesis
    by (simp add: main_iteration_def polling_def ret_def sleep_def record_event_def world0_def)
qed

lemma flaky_second:
  "fst (get_now_playing flaky salon
          \<lparr>trace = [status_request, announced, Sleep 10, Sleep 5], SIMILAR_ARTISTS = Map.empty\<rparr>)
     = Inr so_what"
  by (simp add: get_now_playing_def get_remote_player_status_def flaky_def run_defs
        status_reply_def status_of_def song_of_def dict_display_def so_what_def blue_tags_def
        status_request_def announced_def)

theorem current_track_update_atomic_witness:
  "fst (main_iteration flaky cfg0 polling world0) = Inr ()
   \<and> fst (snd (main_iteration flaky cfg0 polling world0)) = polling
   \<and> prefix
       (trace (snd (get_now_playing flaky salon
                      (snd (snd (main_iteration flaky cfg0 polling world0))))) @ [announced])
       (trace (snd (snd (main_iteration flaky cfg0 polling
                           (snd (snd (main_iteration flaky cfg0 polling world0)))))))"
proof -
  let ?w1 = "record_event status_request world0"
  let ?w' = "\<lparr>trace = [status_request, announced, Sleep 10, Sleep 5],
               SIMILAR_ARTISTS = Map.empty\<rparr>"
  let ?a = "JStr (str ''Miles Davis'')" and ?t = "JStr (str ''So What'')"
  let ?al = "JStr (str ''Kind of Blue'')" and ?tr = "JInt 1"
  have h1: "network polling = Some LastFMNetwork" and h2: "remote polling = Some salon"
    by (simp_all add: polling_def)
  have h4: "truthy so_what" and h5: "\<not> py_eq (current_track polling) so_what"
    by (simp_all add: so_what_def polling_def)
  have f: "subscript so_what (str ''title'') = Inr ?t"
          "subscript so_what (str ''artist'') = Inr ?a"
          "subscript so_what (str ''album'') = Inr ?al"
          "subscript so_what (str ''album_artist'') = Inr ?a"
          "subscript so_what (str ''track'') = Inr ?tr"
    by (simp_all add: so_what_def blue_tags_def str_def)
  have upd: "update_now_playing flaky ?a ?t ?al ?a ?tr ?w1
               = (Inl NetworkError, record_event announced ?w1)"
    by (simp add: update_now_playing_def flaky_def scripted_def nth_or_def record_event_def
          world0_def status_request_def announced_def)
  have scr: "scrobble flaky ?a ?t ?al ?a ?tr (record_event announced ?w1)
               = (fst (scrobble flaky ?a ?t ?al ?a ?tr (record_event announced ?w1)),
                  snd (scrobble flaky ?a ?t ?al ?a ?tr (record_event announced ?w1)))"
    by simp
  have again: "get_now_playing flaky salon ?w'
                 = (Inr so_what, snd (get_now_playing flaky salon ?w'))"
    using flaky_second by (simp add: prod_eq_iff)
  from current_track_update_atomic [OF h1 h2 flaky_first h4 h5 f upd scr again, of cfg0]
  show ?thesis
    by (simp add: flaky_iteration announced_def)
qed

end
